theory Spec2Isabelle
  imports Main
begin

section \<open>JavaScript values\<close>

text \<open>
  The package is untyped JavaScript: a Firebase configuration, a provider entry and a
  FirebaseUI option are plain values. They are modelled by the fragment of JavaScript
  values the source inspects: \<open>undefined\<close>, \<open>null\<close>, booleans, numbers (integers
  only; a number is read at the double nearest to it where the source computes with
  it), strings, arrays and objects (a list of properties, the first binding of a key
  counts).
\<close>

datatype jsval =
    JUndefined
  | JNull
  | JBool bool
  | JNum int
  | JStr string
  | JArr "jsval list"
  | JObj "(string \<times> jsval) list"

text \<open>JavaScript truthiness, as \<open>!v\<close> and \<open>if (v)\<close> read a value.\<close>

fun truthy :: "jsval \<Rightarrow> bool" where
  "truthy JUndefined = False"
| "truthy JNull = False"
| "truthy (JBool b) = b"
| "truthy (JNum n) = (n \<noteq> 0)"
| "truthy (JStr s) = (s \<noteq> [])"
| "truthy (JArr xs) = True"
| "truthy (JObj fs) = True"

text \<open>\<open>typeof v === 'object'\<close>: true of objects, of arrays and of \<open>null\<close>.\<close>

fun typeof_object :: "jsval \<Rightarrow> bool" where
  "typeof_object JNull = True"
| "typeof_object (JObj fs) = True"
| "typeof_object (JArr xs) = True"
| "typeof_object v = False"

text \<open>
  Property read \<open>v.k\<close> on a value that is not \<open>null\<close> or \<open>undefined\<close>: a missing
  property, and any property of a primitive, reads as \<open>undefined\<close>.
\<close>

fun get_prop :: "jsval \<Rightarrow> string \<Rightarrow> jsval" where
  "get_prop (JObj fs) k = (case map_of fs k of Some v \<Rightarrow> v | None \<Rightarrow> JUndefined)"
| "get_prop v k = JUndefined"

text \<open>
  What \<open>for (const x of v)\<close> runs over: the elements of an array, the characters of a
  string; any other value of this fragment is not iterable and the loop throws a
  \<open>TypeError\<close> (\<open>None\<close>).
\<close>

fun iterate :: "jsval \<Rightarrow> jsval list option" where
  "iterate (JArr xs) = Some xs"
| "iterate (JStr s) = Some (map (\<lambda>c. JStr [c]) s)"
| "iterate v = None"

text \<open>\<open>Array.prototype.join\<close> on an array of strings.\<close>

fun join :: "string \<Rightarrow> string list \<Rightarrow> string" where
  "join sep [] = []"
| "join sep [x] = x"
| "join sep (x # y # ys) = x @ sep @ join sep (y # ys)"

text \<open>
  The builtins of the JavaScript runtime that the generator calls and the repository
  does not define: \<open>JSON.stringify\<close> and the conversion of a number to text inside a
  template literal.
\<close>

record builtins =
  stringify :: "jsval \<Rightarrow> string"
  number_to_string :: "int \<Rightarrow> string"


section \<open>Constants and options (index.js, lines 8-36)\<close>

definition FIREBASE_SDK_VERSION :: string where
  "FIREBASE_SDK_VERSION = ''12.7.0''"

definition FIREBASE_UI_VERSION :: string where
  "FIREBASE_UI_VERSION = ''6.1.0''"

definition FIREBASE_JS_URLS :: "string list" where
  "FIREBASE_JS_URLS =
     [''https://www.gstatic.com/firebasejs/'' @ FIREBASE_SDK_VERSION @ ''/firebase-app-compat.js'',
      ''https://www.gstatic.com/firebasejs/'' @ FIREBASE_SDK_VERSION @ ''/firebase-auth-compat.js'',
      ''https://www.gstatic.com/firebasejs/ui/'' @ FIREBASE_UI_VERSION @ ''/firebase-ui-auth.js'']"

definition FIREBASE_CSS_URL :: string where
  "FIREBASE_CSS_URL =
     ''https://www.gstatic.com/firebasejs/ui/'' @ FIREBASE_UI_VERSION @ ''/firebase-ui-auth.css''"

text \<open>
  The merged options \<open>opts\<close>. \<open>authProviders\<close> is any value; the other options
  are taken at the types index.d.ts declares for them (their interpolation into the
  script throws for no value); \<open>tosUrl\<close> and \<open>privacyPolicyUrl\<close> are a string or
  \<open>null\<close> (\<open>None\<close>).
\<close>

record options =
  authProviders :: jsval
  refreshBeforeExpiryMs :: int
  signInFlow :: string
  securitySchemeName :: string
  tosUrl :: "string option"
  privacyPolicyUrl :: "string option"

definition DEFAULT_OPTIONS :: options where
  "DEFAULT_OPTIONS =
     \<lparr> authProviders = JArr [JStr ''email''],
       refreshBeforeExpiryMs = 5 * 60 * 1000,
       signInFlow = ''popup'',
       securitySchemeName = ''firebase'',
       tosUrl = None,
       privacyPolicyUrl = None \<rparr>"

text \<open>
  The options object a caller passes: every key may be absent (\<open>None\<close>). The spread
  \<open>{ ...DEFAULT_OPTIONS, ...options }\<close> takes each key from the caller when it is
  present and from the defaults otherwise. A key that is present with the value
  \<open>undefined\<close> (\<open>Some JUndefined\<close> for \<open>authProviders\<close>) is present: the spread copies
  it over the default.
\<close>

record given_options =
  given_authProviders :: "jsval option"
  given_refreshBeforeExpiryMs :: "int option"
  given_signInFlow :: "string option"
  given_securitySchemeName :: "string option"
  given_tosUrl :: "string option option"
  given_privacyPolicyUrl :: "string option option"

definition no_options :: given_options where
  "no_options =
     \<lparr> given_authProviders = None, given_refreshBeforeExpiryMs = None,
       given_signInFlow = None, given_securitySchemeName = None,
       given_tosUrl = None, given_privacyPolicyUrl = None \<rparr>"

definition merge_options :: "options \<Rightarrow> given_options \<Rightarrow> options" where
  "merge_options d g =
     \<lparr> authProviders = (case given_authProviders g of Some v \<Rightarrow> v | None \<Rightarrow> authProviders d),
       refreshBeforeExpiryMs =
         (case given_refreshBeforeExpiryMs g of Some v \<Rightarrow> v | None \<Rightarrow> refreshBeforeExpiryMs d),
       signInFlow = (case given_signInFlow g of Some v \<Rightarrow> v | None \<Rightarrow> signInFlow d),
       securitySchemeName =
         (case given_securitySchemeName g of Some v \<Rightarrow> v | None \<Rightarrow> securitySchemeName d),
       tosUrl = (case given_tosUrl g of Some v \<Rightarrow> v | None \<Rightarrow> tosUrl d),
       privacyPolicyUrl =
         (case given_privacyPolicyUrl g of Some v \<Rightarrow> v | None \<Rightarrow> privacyPolicyUrl d) \<rparr>"


section \<open>Sign-in options (index.js, lines 41-156)\<close>

text \<open>
  The \<open>switch\<close> of \<open>buildSignInOptions\<close>: the value pushed for a provider name, and
  \<open>None\<close> in the \<open>default\<close> branch, which pushes nothing.
\<close>

definition signInOption_of :: "string \<Rightarrow> jsval option" where
  "signInOption_of provider =
     (if provider = ''email'' then
        Some (JObj [(''provider'', JStr ''firebase.auth.EmailAuthProvider.PROVIDER_ID''),
                    (''requireDisplayName'', JBool False)])
      else if provider = ''google'' then
        Some (JObj [(''provider'', JStr ''firebase.auth.GoogleAuthProvider.PROVIDER_ID''),
                    (''customParameters'', JObj [(''prompt'', JStr ''select_account'')])])
      else if provider = ''apple'' then
        Some (JStr ''firebase.auth.OAuthProvider.PROVIDER_ID_APPLE'')
      else if provider = ''github'' then
        Some (JStr ''firebase.auth.GithubAuthProvider.PROVIDER_ID'')
      else if provider = ''microsoft'' then
        Some (JStr ''firebase.auth.OAuthProvider.PROVIDER_ID_MICROSOFT'')
      else if provider = ''twitter'' then
        Some (JStr ''firebase.auth.TwitterAuthProvider.PROVIDER_ID'')
      else if provider = ''facebook'' then
        Some (JStr ''firebase.auth.FacebookAuthProvider.PROVIDER_ID'')
      else if provider = ''phone'' then
        Some (JObj [(''provider'', JStr ''firebase.auth.PhoneAuthProvider.PROVIDER_ID''),
                    (''defaultCountry'', JStr ''US'')])
      else if provider = ''anonymous'' then
        Some (JStr ''firebaseui.auth.AnonymousAuthProvider.PROVIDER_ID'')
      else None)"

text \<open>
  One turn of the loop of \<open>buildSignInOptions\<close> on the pair of the array
  \<open>signInOptions\<close> and the providers reported by \<open>console.warn\<close>. A value that is
  not a string and not an object matches no \<open>case\<close> and takes the \<open>default\<close> branch.
\<close>

fun buildSignInOptions_push ::
  "jsval \<Rightarrow> jsval list \<times> jsval list \<Rightarrow> jsval list \<times> jsval list" where
  "buildSignInOptions_push provider (signInOptions, warned) =
     (if typeof_object provider then (signInOptions @ [provider], warned)
      else
        (case provider of
           JStr s \<Rightarrow>
             (case signInOption_of s of
                Some v \<Rightarrow> (signInOptions @ [v], warned)
              | None \<Rightarrow> (signInOptions, warned @ [provider]))
         | _ \<Rightarrow> (signInOptions, warned @ [provider])))"

definition buildSignInOptions :: "jsval list \<Rightarrow> jsval list \<times> jsval list" where
  "buildSignInOptions providers = fold buildSignInOptions_push providers ([], [])"

text \<open>The template literals of \<open>generateSignInOptionsCode\<close>, with their line breaks.\<close>

definition signInOptionCode_of :: "string \<Rightarrow> string option" where
  "signInOptionCode_of provider =
     (if provider = ''email'' then
        Some (''{\<newline>            provider: firebase.auth.EmailAuthProvider.PROVIDER_ID,''
              @ ''\<newline>            requireDisplayName: false,\<newline>          }'')
      else if provider = ''google'' then
        Some (''{\<newline>            provider: firebase.auth.GoogleAuthProvider.PROVIDER_ID,''
              @ ''\<newline>            customParameters: { prompt: 'select_account' },\<newline>          }'')
      else if provider = ''apple'' then
        Some (''{\<newline>            provider: 'apple.com',''
              @ ''\<newline>            providerName: 'Apple',\<newline>          }'')
      else if provider = ''github'' then
        Some ''firebase.auth.GithubAuthProvider.PROVIDER_ID''
      else if provider = ''microsoft'' then
        Some (''{\<newline>            provider: 'microsoft.com',''
              @ ''\<newline>            providerName: 'Microsoft',\<newline>          }'')
      else if provider = ''twitter'' then
        Some ''firebase.auth.TwitterAuthProvider.PROVIDER_ID''
      else if provider = ''facebook'' then
        Some ''firebase.auth.FacebookAuthProvider.PROVIDER_ID''
      else if provider = ''phone'' then
        Some (''{\<newline>            provider: firebase.auth.PhoneAuthProvider.PROVIDER_ID,''
              @ ''\<newline>            defaultCountry: 'US',\<newline>          }'')
      else if provider = ''anonymous'' then
        Some ''firebaseui.auth.AnonymousAuthProvider.PROVIDER_ID''
      else None)"

fun generateSignInOptionsCode_push :: "builtins \<Rightarrow> jsval \<Rightarrow> string list \<Rightarrow> string list" where
  "generateSignInOptionsCode_push js provider opts =
     (if typeof_object provider then opts @ [stringify js provider]
      else
        (case provider of
           JStr s \<Rightarrow> (case signInOptionCode_of s of Some c \<Rightarrow> opts @ [c] | None \<Rightarrow> opts)
         | _ \<Rightarrow> opts))"

text \<open>The array \<open>options\<close> of \<open>generateSignInOptionsCode\<close> when its loop ends.\<close>

definition generateSignInOptionsCode_options :: "builtins \<Rightarrow> jsval list \<Rightarrow> string list" where
  "generateSignInOptionsCode_options js providers =
     fold (generateSignInOptionsCode_push js) providers []"

text \<open>What the package throws: its own configuration error, or a \<open>TypeError\<close>.\<close>

datatype error = Error string | TypeError string

text \<open>
  \<open>generateSignInOptionsCode\<close> on the value of \<open>opts.authProviders\<close>: the loop
  throws when the value is not iterable.
\<close>

definition generateSignInOptionsCode :: "builtins \<Rightarrow> jsval \<Rightarrow> error + string" where
  "generateSignInOptionsCode js providers =
     (case iterate providers of
        None \<Rightarrow> Inl (TypeError ''providers is not iterable'')
      | Some ps \<Rightarrow>
          Inr (join '',\<newline>                  '' (generateSignInOptionsCode_options js ps)))"


section \<open>The generated script and its configuration object (index.js, lines 165-511)\<close>

text \<open>
  \<open>generatePluginScript\<close> returns one template literal. Its fixed text is cut at the
  eight interpolations into nine pieces, \<open>script_text 0\<close> to \<open>script_text 8\<close>, taken
  as given; the interpolated values are computed as the source computes them.
\<close>

definition single_quoted :: "string \<Rightarrow> string" where
  "single_quoted s = [CHR 0x27] @ s @ [CHR 0x27]"

definition firebaseUiConfig :: "options \<Rightarrow> string \<Rightarrow> string" where
  "firebaseUiConfig opts signInOptionsCode =
     (let c0 = ''{\<newline>                signInFlow: '' @ single_quoted (signInFlow opts) @ '',''
               @ ''\<newline>                signInOptions: [\<newline>                  ''
               @ signInOptionsCode
               @ ''\<newline>                ],\<newline>                callbacks: {''
               @ ''\<newline>                  signInSuccessWithAuthResult: () => {''
               @ ''\<newline>                    close();\<newline>                    return false;''
               @ ''\<newline>                  },\<newline>                },'';
          c1 = (case tosUrl opts of
                  Some u \<Rightarrow>
                    if u \<noteq> [] then c0 @ ''\<newline>                tosUrl: '' @ single_quoted u @ '',''
                    else c0
                | None \<Rightarrow> c0);
          c2 = (case privacyPolicyUrl opts of
                  Some u \<Rightarrow>
                    if u \<noteq> [] then
                      c1 @ ''\<newline>                privacyPolicyUrl: '' @ single_quoted u @ '',''
                    else c1
                | None \<Rightarrow> c1)
      in c2 @ ''\<newline>              }'')"

definition generatePluginScript ::
  "(nat \<Rightarrow> string) \<Rightarrow> builtins \<Rightarrow> jsval \<Rightarrow> given_options \<Rightarrow> error + string" where
  "generatePluginScript script_text js firebaseConfig given =
     (let opts = merge_options DEFAULT_OPTIONS given in
      case generateSignInOptionsCode js (authProviders opts) of
        Inl e \<Rightarrow> Inl e
      | Inr signInOptionsCode \<Rightarrow>
          (let firebaseConfigJson = stringify js firebaseConfig;
               ui = firebaseUiConfig opts signInOptionsCode
           in Inr (script_text 0 @ firebaseConfigJson
                @ script_text 1 @ securitySchemeName opts
                @ script_text 2 @ securitySchemeName opts
                @ script_text 3 @ securitySchemeName opts
                @ script_text 4 @ number_to_string js (refreshBeforeExpiryMs opts)
                @ script_text 5 @ securitySchemeName opts
                @ script_text 6 @ securitySchemeName opts
                @ script_text 7 @ ui
                @ script_text 8)))"

record swagger_firebase_auth_result =
  customJs :: "string list"
  customCssUrl :: string
  initScript :: string

text \<open>
  \<open>createSwaggerFirebaseAuth\<close>: a \<open>throw\<close> is the left summand, its own or the one
  that \<open>generatePluginScript\<close> lets through.
\<close>

definition createSwaggerFirebaseAuth ::
  "(nat \<Rightarrow> string) \<Rightarrow> builtins \<Rightarrow> jsval \<Rightarrow> given_options \<Rightarrow> error + swagger_firebase_auth_result" where
  "createSwaggerFirebaseAuth script_text js firebaseConfig given =
     (if \<not> truthy firebaseConfig \<or> \<not> truthy (get_prop firebaseConfig ''apiKey'') then
        Inl (Error ''Firebase config with apiKey is required'')
      else
        (case generatePluginScript script_text js firebaseConfig given of
           Inl e \<Rightarrow> Inl e
         | Inr script \<Rightarrow>
             Inr \<lparr> customJs = FIREBASE_JS_URLS,
                   customCssUrl = FIREBASE_CSS_URL,
                   initScript = script \<rparr>))"

text \<open>The fields that the interface \<open>FirebaseConfig\<close> of index.d.ts declares without \<open>?\<close>.\<close>

definition FirebaseConfig_required :: "string list" where
  "FirebaseConfig_required = [''apiKey'', ''authDomain'', ''projectId'']"

definition missing_required_field :: "jsval \<Rightarrow> bool" where
  "missing_required_field firebaseConfig =
     list_ex (\<lambda>k. get_prop firebaseConfig k = JUndefined) FirebaseConfig_required"


section \<open>Numbers and names in the generated script\<close>

text \<open>
  The script computes with doubles. On integers a double operation gives the exact result
  rounded to 53 significant bits, ties to even; \<open>to_double\<close> is that rounding (the
  identity up to \<open>2^53\<close>). Overflow to infinity, beyond \<open>2^1023\<close>, is not modelled. A
  number that is not a number (\<open>NaN\<close>) is \<open>None\<close>.
\<close>

fun bit_length :: "nat \<Rightarrow> nat" where
  "bit_length n = (if n = 0 then 0 else Suc (bit_length (n div 2)))"

declare bit_length.simps [simp del]

definition to_double :: "int \<Rightarrow> int" where
  "to_double x =
     (let a = nat \<bar>x\<bar>; k = bit_length a - 53 in
      if k = 0 then x
      else
        (let q = a div 2 ^ k; r = a mod 2 ^ k; h = 2 ^ (k - 1);
             m = (if h < r \<or> (r = h \<and> odd q) then q + 1 else q)
         in sgn x * int (m * 2 ^ k)))"

definition double_range :: "int \<Rightarrow> bool" where
  "double_range x = (\<bar>x\<bar> < 2 ^ 1000)"

definition num_times :: "int option \<Rightarrow> int option \<Rightarrow> int option" where
  "num_times a b =
     (case a of None \<Rightarrow> None
      | Some x \<Rightarrow> (case b of None \<Rightarrow> None | Some y \<Rightarrow> Some (to_double (x * y))))"

definition num_minus :: "int option \<Rightarrow> int option \<Rightarrow> int option" where
  "num_minus a b =
     (case a of None \<Rightarrow> None
      | Some x \<Rightarrow> (case b of None \<Rightarrow> None | Some y \<Rightarrow> Some (to_double (x - y))))"

text \<open>
  The browser's \<open>setTimeout\<close> reads its delay as a signed 32-bit integer (modulo
  \<open>2^32\<close>) and a negative one as \<open>0\<close>: the milliseconds after which the timeout fires.
\<close>

definition timeout_ms :: "int \<Rightarrow> int" where
  "timeout_ms d = (let w = (d + 2 ^ 31) mod 2 ^ 32 - 2 ^ 31 in if w < 0 then 0 else w)"

text \<open>The decimal text of a natural number.\<close>

definition decimal_digit :: "nat \<Rightarrow> char" where
  "decimal_digit n = ''0123456789'' ! n"

fun decimal :: "nat \<Rightarrow> string" where
  "decimal n =
     (if n < 10 then [decimal_digit n] else decimal (n div 10) @ [decimal_digit (n mod 10)])"

declare decimal.simps [simp del]

definition digit_char :: "char \<Rightarrow> bool" where
  "digit_char c = List.member ''0123456789'' c"

definition identifier_char :: "char \<Rightarrow> bool" where
  "identifier_char c =
     List.member ''abcdefghijklmnopqrstuvwxyzABCDEFGHIJKLMNOPQRSTUVWXYZ_$'' c"

definition nat_of_digits :: "string \<Rightarrow> nat" where
  "nat_of_digits ds = foldl (\<lambda>n c. 10 * n + (of_char c - 48)) 0 ds"

text \<open>An ASCII identifier name of JavaScript.\<close>

definition js_identifier_name :: "string \<Rightarrow> bool" where
  "js_identifier_name s =
     (case s of
        [] \<Rightarrow> False
      | c # cs \<Rightarrow> identifier_char c \<and> list_all (\<lambda>d. identifier_char d \<or> digit_char d) cs)"

text \<open>
  A decimal literal of the form digits \<open>e\<close> digits, without a leading zero, and its
  value.
\<close>

definition exponent_literal :: "string \<Rightarrow> nat option" where
  "exponent_literal s =
     (case takeWhile digit_char s of
        [] \<Rightarrow> None
      | d # ds \<Rightarrow>
          (case dropWhile digit_char s of
             [] \<Rightarrow> None
           | c # ex \<Rightarrow>
               if c = CHR ''e'' \<and> (ds = [] \<or> d \<noteq> CHR ''0'') \<and> ex \<noteq> [] \<and> list_all digit_char ex
               then Some (nat_of_digits (d # ds) * 10 ^ nat_of_digits ex)
               else None))"

text \<open>
  The script pastes \<open>securitySchemeName\<close> three times: twice between quotes (lines
  231 and 234) and once bare, as the key of an object literal (line 233). A bare
  identifier name is the key of that spelling. A bare number literal is the key that is
  the text of its value: \<open>1e3\<close> is the key \<open>1000\<close>. Any other name is outside this
  model (\<open>None\<close>); for many, as for \<open>firebase-auth\<close>, the script is a
  \<open>SyntaxError\<close> and none of it runs. Inside quotes both kinds of name stand for
  themselves.
\<close>

definition scheme_key :: "string \<Rightarrow> string option" where
  "scheme_key name =
     (if js_identifier_name name then Some name
      else
        (case exponent_literal name of
           None \<Rightarrow> None
         | Some v \<Rightarrow> if v < 10 ^ 21 then Some (decimal v) else None))"


section \<open>The generated script: token refresh (index.js, lines 203-336)\<close>

text \<open>
  The script runs on the browser's event loop, one callback at a time. Its state is the
  variable \<open>refreshTimerId\<close> together with what the environment holds for it: the
  pending timeouts, the promises of \<open>getIdToken\<close> that have not settled yet (each with
  the callback that awaits it), the calls of \<open>getIdToken\<close> with their \<open>forceRefresh\<close>
  argument, the calls made on \<open>authActions\<close> with the resulting authorizations of
  Swagger UI, the calls of \<open>firebase.auth().signOut()\<close> and the console. The
  environment chooses when a notification arrives, a timeout fires or a promise settles,
  and with what; each such event runs one callback of the script.
\<close>

type_synonym user = nat
type_synonym handle = nat
type_synonym promise = nat

text \<open>
  An ID token is its text together with what \<open>split\<close>, \<open>atob\<close>,
  \<open>decodeURIComponent\<close> and \<open>JSON.parse\<close> make of it inside \<open>parseJwt\<close>: an
  exception, or the parsed value. \<open>exp_to_number\<close> is the number that the
  multiplication \<open>decoded.exp * 1000\<close> reads an \<open>exp\<close> as when it is a string or an
  array; every other kind of value has its number in \<open>to_number\<close>.
\<close>

datatype decode_outcome = DecodeThrows | Decoded jsval

record id_token =
  raw :: string
  decodes_to :: decode_outcome
  exp_to_number :: "int option"

definition to_number :: "id_token \<Rightarrow> jsval \<Rightarrow> int option" where
  "to_number token v =
     (case v of
        JUndefined \<Rightarrow> None
      | JNull \<Rightarrow> Some 0
      | JBool b \<Rightarrow> Some (if b then 1 else 0)
      | JNum n \<Rightarrow> Some (to_double n)
      | JStr s \<Rightarrow> exp_to_number token
      | JArr xs \<Rightarrow> exp_to_number token
      | JObj fs \<Rightarrow> None)"

text \<open>A rejection of \<open>getIdToken\<close> is read only through \<open>e.code\<close> (\<open>None\<close>: no code).\<close>

datatype settlement = Resolved id_token | Rejected "string option"

datatype console_entry =
    ConsoleLog string
  | ConsoleLogScheduled int
  | ConsoleWarn string
  | ConsoleError string

record auth_schema =
  schema_type :: string
  schema_in :: string
  schema_name :: string

record authorization =
  auth_name :: string
  auth_schema :: auth_schema
  auth_value :: string

datatype auth_call =
    LogoutWithPersistOption "string list"
  | AuthorizeWithPersistOption "(string \<times> authorization) list"

text \<open>
  The callbacks that wait for a promise of \<open>getIdToken\<close>: the handler of
  \<open>onIdTokenChanged\<close> (line 321), \<open>setupRefreshTimer\<close> (line 252), the timer
  callback (line 268, forced) and the immediate refresh (line 282, forced).
\<close>

datatype continuation =
    OnIdTokenChangedThen user
  | SetupRefreshTimerThen user
  | TimerRefresh user
  | ImmediateRefresh user

record timer =
  timer_user :: user
  timer_delay :: int

record state =
  refreshTimerId :: "handle option"
  timers :: "(handle \<times> timer) list"
  nextHandle :: handle
  promises :: "(promise \<times> continuation) list"
  nextPromise :: promise
  fetches :: "(promise \<times> bool) list"
  authCalls :: "auth_call list"
  authorized :: "(string \<times> authorization) list"
  signOuts :: nat
  console :: "console_entry list"

text \<open>The state when \<open>window.onload\<close> has run: \<open>let refreshTimerId = null\<close>.\<close>

definition initial :: state where
  "initial =
     \<lparr> refreshTimerId = None, timers = [], nextHandle = 1, promises = [], nextPromise = 0,
       fetches = [], authCalls = [], authorized = [], signOuts = 0, console = [] \<rparr>"

subsection \<open>The environment\<close>

text \<open>
  \<open>setTimeout\<close> returns a fresh positive handle (so a stored handle is truthy) and
  \<open>clearTimeout\<close> removes a pending timeout, if there is one. A timeout set with the
  delay \<open>d\<close> fires \<open>timeout_ms d\<close> milliseconds later.
\<close>

definition setTimeout :: "timer \<Rightarrow> state \<Rightarrow> handle \<times> state" where
  "setTimeout t s =
     (nextHandle s,
      s\<lparr> timers := timers s @ [(nextHandle s, t)], nextHandle := Suc (nextHandle s) \<rparr>)"

definition fires_after :: "timer \<Rightarrow> int" where
  "fires_after t = timeout_ms (timer_delay t)"

definition clearTimeout :: "handle \<Rightarrow> state \<Rightarrow> state" where
  "clearTimeout h s = s\<lparr> timers := filter (\<lambda>e. fst e \<noteq> h) (timers s) \<rparr>"

text \<open>
  \<open>user.getIdToken(forceRefresh)\<close> followed by the registration of its callback.
\<close>

definition getIdToken :: "bool \<Rightarrow> continuation \<Rightarrow> state \<Rightarrow> state" where
  "getIdToken forceRefresh k s =
     s\<lparr> promises := promises s @ [(nextPromise s, k)],
        fetches := fetches s @ [(nextPromise s, forceRefresh)],
        nextPromise := Suc (nextPromise s) \<rparr>"

definition signOut :: "state \<Rightarrow> state" where
  "signOut s = s\<lparr> signOuts := Suc (signOuts s) \<rparr>"

definition console_add :: "console_entry \<Rightarrow> state \<Rightarrow> state" where
  "console_add e s = s\<lparr> console := console s @ [e] \<rparr>"

text \<open>
  Swagger UI's \<open>authActions\<close>: a logout removes the named authorizations, an authorize
  stores the given ones under their keys. Every call is recorded in \<open>authCalls\<close>.
\<close>

definition logoutWithPersistOption :: "string list \<Rightarrow> state \<Rightarrow> state" where
  "logoutWithPersistOption names s =
     s\<lparr> authCalls := authCalls s @ [LogoutWithPersistOption names],
        authorized := filter (\<lambda>e. \<not> List.member names (fst e)) (authorized s) \<rparr>"

definition authorizeWithPersistOption :: "(string \<times> authorization) list \<Rightarrow> state \<Rightarrow> state" where
  "authorizeWithPersistOption payload s =
     s\<lparr> authCalls := authCalls s @ [AuthorizeWithPersistOption payload],
        authorized :=
          payload @ filter (\<lambda>e. \<not> List.member (map fst payload) (fst e)) (authorized s) \<rparr>"

subsection \<open>The functions of the script\<close>

text \<open>\<open>parseJwt\<close>: the \<open>catch\<close> logs and returns \<open>null\<close>.\<close>

definition parseJwt :: "id_token \<Rightarrow> state \<Rightarrow> jsval \<times> state" where
  "parseJwt token s =
     (case decodes_to token of
        DecodeThrows \<Rightarrow>
          (JNull, console_add (ConsoleError ''[swagger-ui-firebase-auth] Failed to parse JWT:'') s)
      | Decoded v \<Rightarrow> (v, s))"

definition bearer_authorization :: "options \<Rightarrow> string \<Rightarrow> authorization" where
  "bearer_authorization opts token =
     \<lparr> auth_name = securitySchemeName opts,
       auth_schema =
         \<lparr> schema_type = ''apiKey'', schema_in = ''header'', schema_name = ''authorization'' \<rparr>,
       auth_value = ''Bearer '' @ token \<rparr>"

text \<open>
  \<open>updateSwaggerAuth\<close>: the logout names the scheme between quotes, the authorize
  passes an object literal whose key is the bare name.
\<close>

definition updateSwaggerAuth :: "options \<Rightarrow> id_token \<Rightarrow> state \<Rightarrow> state" where
  "updateSwaggerAuth opts token s =
     (case scheme_key (securitySchemeName opts) of
        None \<Rightarrow> s
      | Some key \<Rightarrow>
          authorizeWithPersistOption
            [(key, bearer_authorization opts (raw token))]
            (logoutWithPersistOption [securitySchemeName opts] s))"

text \<open>
  \<open>setupRefreshTimer\<close> up to its call of \<open>user.getIdToken()\<close> (lines 247-252): the
  rest runs when that promise settles.
\<close>

definition setupRefreshTimer :: "user \<Rightarrow> state \<Rightarrow> state" where
  "setupRefreshTimer u s =
     getIdToken False (SetupRefreshTimerThen u)
       (case refreshTimerId s of
          Some h \<Rightarrow> (clearTimeout h s)\<lparr> refreshTimerId := None \<rparr>
        | None \<Rightarrow> s)"

text \<open>
  The delay of lines 259-262 at clock reading \<open>now\<close> (\<open>Date.now()\<close>):
  \<open>decoded.exp * 1000 - refreshBeforeExpiryMs - now\<close>, each operation in doubles.
\<close>

definition refresh_delay :: "options \<Rightarrow> int \<Rightarrow> id_token \<Rightarrow> jsval \<Rightarrow> int option" where
  "refresh_delay opts now token decoded =
     (let expiresAt = num_times (to_number token (get_prop decoded ''exp'')) (Some 1000);
          refreshAt = num_minus expiresAt (Some (to_double (refreshBeforeExpiryMs opts)));
          delay = num_minus refreshAt (Some (to_double now))
      in delay)"

text \<open>
  The callback of lines 252-289, run with the token. The entry \<open>ConsoleLogScheduled\<close>
  holds the delay that the logged text is computed from. \<open>delay > 0\<close> is false of
  \<open>NaN\<close>.
\<close>

definition setupRefreshTimer_then :: "options \<Rightarrow> int \<Rightarrow> user \<Rightarrow> id_token \<Rightarrow> state \<Rightarrow> state" where
  "setupRefreshTimer_then opts now u token s =
     (case parseJwt token s of
        (decoded, s1) \<Rightarrow>
          if \<not> truthy decoded \<or> \<not> truthy (get_prop decoded ''exp'') then
            console_add
              (ConsoleWarn ''[swagger-ui-firebase-auth] Could not parse JWT expiration'') s1
          else
            (let refresh =
                   getIdToken True (ImmediateRefresh u)
                     (console_add
                        (ConsoleLog
                           ''[swagger-ui-firebase-auth] Token expired or expiring soon, refreshing immediately'')
                        s1)
             in case refresh_delay opts now token decoded of
                  None \<Rightarrow> refresh
                | Some delay \<Rightarrow>
                    if delay > 0 then
                      (case setTimeout \<lparr> timer_user = u, timer_delay = delay \<rparr>
                              (console_add (ConsoleLogScheduled delay) s1) of
                         (h, s2) \<Rightarrow> s2\<lparr> refreshTimerId := Some h \<rparr>)
                    else refresh))"

definition setupRefreshTimer_catch :: "state \<Rightarrow> state" where
  "setupRefreshTimer_catch s =
     console_add
       (ConsoleError ''[swagger-ui-firebase-auth] Failed to get token for refresh scheduling:'') s"

text \<open>The timer callback (lines 266-279): up to its \<open>await\<close>, and after it.\<close>

definition timer_callback :: "user \<Rightarrow> state \<Rightarrow> state" where
  "timer_callback u s = getIdToken True (TimerRefresh u) s"

definition session_invalid :: "string option \<Rightarrow> bool" where
  "session_invalid code =
     (code = Some ''auth/user-token-expired'' \<or> code = Some ''auth/invalid-user-token'')"

definition timer_callback_resume :: "options \<Rightarrow> user \<Rightarrow> settlement \<Rightarrow> state \<Rightarrow> state" where
  "timer_callback_resume opts u r s =
     (case r of
        Resolved newToken \<Rightarrow>
          setupRefreshTimer u
            (updateSwaggerAuth opts newToken
               (console_add (ConsoleLog ''[swagger-ui-firebase-auth] Token refreshed successfully'') s))
      | Rejected code \<Rightarrow>
          (let s1 = console_add (ConsoleError ''[swagger-ui-firebase-auth] Token refresh failed:'') s
           in if session_invalid code then
                signOut
                  (console_add
                     (ConsoleLog ''[swagger-ui-firebase-auth] Session expired, signing out'') s1)
              else s1))"

text \<open>The immediate refresh (lines 282-288): its \<open>then\<close> and its \<open>catch\<close>.\<close>

definition immediate_refresh_settled :: "options \<Rightarrow> user \<Rightarrow> settlement \<Rightarrow> state \<Rightarrow> state" where
  "immediate_refresh_settled opts u r s =
     (case r of
        Resolved newToken \<Rightarrow> setupRefreshTimer u (updateSwaggerAuth opts newToken s)
      | Rejected code \<Rightarrow>
          signOut
            (console_add
               (ConsoleError ''[swagger-ui-firebase-auth] Immediate token refresh failed:'') s))"

definition clearRefreshTimer :: "state \<Rightarrow> state" where
  "clearRefreshTimer s =
     (case refreshTimerId s of
        Some h \<Rightarrow>
          console_add (ConsoleLog ''[swagger-ui-firebase-auth] Token refresh timer cleared'')
            ((clearTimeout h s)\<lparr> refreshTimerId := None \<rparr>)
      | None \<Rightarrow> s)"

text \<open>
  The handler given to \<open>auth.onIdTokenChanged\<close> (lines 319-330), and the callback of
  its \<open>getIdToken\<close>, which has no \<open>catch\<close>: a rejection runs no code of the script.
\<close>

definition onIdTokenChanged :: "options \<Rightarrow> user option \<Rightarrow> state \<Rightarrow> state" where
  "onIdTokenChanged opts user s =
     (case user of
        Some u \<Rightarrow> getIdToken False (OnIdTokenChangedThen u) s
      | None \<Rightarrow> logoutWithPersistOption [securitySchemeName opts] (clearRefreshTimer s))"

definition onIdTokenChanged_then :: "options \<Rightarrow> user \<Rightarrow> id_token \<Rightarrow> state \<Rightarrow> state" where
  "onIdTokenChanged_then opts u idToken s =
     setupRefreshTimer u
       (updateSwaggerAuth opts idToken
          (console_add
             (ConsoleLog ''[swagger-ui-firebase-auth] Token updated via onIdTokenChanged'') s))"

subsection \<open>The event loop\<close>

datatype event =
    IdTokenChanged "user option"
  | TimerFired handle
  | Settled promise settlement

definition settle :: "options \<Rightarrow> int \<Rightarrow> continuation \<Rightarrow> settlement \<Rightarrow> state \<Rightarrow> state" where
  "settle opts now k r s =
     (case k of
        OnIdTokenChangedThen u \<Rightarrow>
          (case r of Resolved t \<Rightarrow> onIdTokenChanged_then opts u t s | Rejected code \<Rightarrow> s)
      | SetupRefreshTimerThen u \<Rightarrow>
          (case r of
             Resolved t \<Rightarrow> setupRefreshTimer_then opts now u t s
           | Rejected code \<Rightarrow> setupRefreshTimer_catch s)
      | TimerRefresh u \<Rightarrow> timer_callback_resume opts u r s
      | ImmediateRefresh u \<Rightarrow> immediate_refresh_settled opts u r s)"

text \<open>
  One event at clock reading \<open>now\<close>. A timeout fires once and only while it is
  pending; a promise settles once. No event runs when the scheme name is outside the
  model.
\<close>

definition step :: "options \<Rightarrow> int \<Rightarrow> event \<Rightarrow> state \<Rightarrow> state" where
  "step opts now ev s =
     (case scheme_key (securitySchemeName opts) of
        None \<Rightarrow> s
      | Some key \<Rightarrow>
          (case ev of
             IdTokenChanged user \<Rightarrow> onIdTokenChanged opts user s
           | TimerFired h \<Rightarrow>
               (case map_of (timers s) h of
                  None \<Rightarrow> s
                | Some t \<Rightarrow> timer_callback (timer_user t) (clearTimeout h s))
           | Settled p r \<Rightarrow>
               (case map_of (promises s) p of
                  None \<Rightarrow> s
                | Some k \<Rightarrow>
                    settle opts now k r
                      (s\<lparr> promises := filter (\<lambda>e. fst e \<noteq> p) (promises s) \<rparr>))))"

definition run :: "options \<Rightarrow> (int \<times> event) list \<Rightarrow> state \<Rightarrow> state" where
  "run opts evs s = fold (\<lambda>e. step opts (fst e) (snd e)) evs s"


section \<open>What the properties are stated with\<close>

text \<open>
  The entry that one provider contributes to the array of \<open>buildSignInOptions\<close>, and
  to the array of \<open>generateSignInOptionsCode\<close>: an object (or \<open>null\<close>) contributes
  itself, respectively its \<open>JSON.stringify\<close>; a string contributes what the \<open>switch\<close>
  pushes for it; \<open>None\<close> where the loop pushes nothing.
\<close>

definition signInEntry :: "jsval \<Rightarrow> jsval option" where
  "signInEntry provider =
     (if typeof_object provider then Some provider
      else (case provider of JStr s \<Rightarrow> signInOption_of s | _ \<Rightarrow> None))"

definition signInEntryCode :: "builtins \<Rightarrow> jsval \<Rightarrow> string option" where
  "signInEntryCode js provider =
     (if typeof_object provider then Some (stringify js provider)
      else (case provider of JStr s \<Rightarrow> signInOptionCode_of s | _ \<Rightarrow> None))"

text \<open>
  An authorize call of the shape \<open>updateSwaggerAuth\<close> makes: one entry, under the
  configured scheme name, an \<open>apiKey\<close> in the header \<open>authorization\<close>, whose value
  starts with \<open>Bearer \<close> (seven characters). A logout call is no set.
\<close>

definition bearer_set :: "options \<Rightarrow> auth_call \<Rightarrow> bool" where
  "bearer_set opts call =
     (case call of
        LogoutWithPersistOption names \<Rightarrow> True
      | AuthorizeWithPersistOption payload \<Rightarrow>
          (case payload of
             [(k, a)] \<Rightarrow>
               k = securitySchemeName opts
               \<and> auth_schema a =
                   \<lparr> schema_type = ''apiKey'', schema_in = ''header'',
                     schema_name = ''authorization'' \<rparr>
               \<and> take 7 (auth_value a) = ''Bearer ''
           | _ \<Rightarrow> False))"

text \<open>Concrete inputs: builtins, a script without fixed text, tokens and event sequences.\<close>

definition plain_builtins :: builtins where
  "plain_builtins = \<lparr> stringify = (\<lambda>v. ''{}''), number_to_string = (\<lambda>n. ''300000'') \<rparr>"

definition no_script_text :: "nat \<Rightarrow> string" where
  "no_script_text i = []"

definition token_with_exp :: "string \<Rightarrow> int \<Rightarrow> id_token" where
  "token_with_exp text e =
     \<lparr> raw = text, decodes_to = Decoded (JObj [(''exp'', JNum e)]), exp_to_number = None \<rparr>"

text \<open>
  User 7 signs in at clock reading 1000000 ms; the handler's promise settles with a token
  that expires at second 4600, which is 3600 s later.
\<close>

definition signed_in :: "(int \<times> event) list" where
  "signed_in =
     [(1000000, IdTokenChanged (Some 7)),
      (1000000, Settled 0 (Resolved (token_with_exp ''tokA'' 4600)))]"

text \<open>Then the promise of \<open>setupRefreshTimer\<close> settles with the same token.\<close>

definition armed :: "(int \<times> event) list" where
  "armed = signed_in @ [(1000000, Settled 1 (Resolved (token_with_exp ''tokA'' 4600)))]"

text \<open>The timer fires after its 3300000 ms: the forced fetch is promise 2.\<close>

definition timer_fired :: "(int \<times> event) list" where
  "timer_fired = armed @ [(4300000, TimerFired 1)]"

text \<open>
  Firebase refreshes the token and, as on every token refresh, notifies the handler of
  \<open>onIdTokenChanged\<close> (promise 3). The forced fetch resolves (promise 2): the timer
  callback updates Swagger UI and calls \<open>setupRefreshTimer\<close> (promise 4). The handler's
  promise resolves: it updates Swagger UI and calls \<open>setupRefreshTimer\<close> too (promise
  5). Promises 4 and 5 then resolve in the order of their creation.
\<close>

definition refresh_race :: "(int \<times> event) list" where
  "refresh_race =
     timer_fired @
     [(4300500, IdTokenChanged (Some 7)),
      (4300500, Settled 2 (Resolved (token_with_exp ''tokB'' 8200))),
      (4300500, Settled 3 (Resolved (token_with_exp ''tokB'' 8200))),
      (4300500, Settled 4 (Resolved (token_with_exp ''tokB'' 8200))),
      (4300500, Settled 5 (Resolved (token_with_exp ''tokB'' 8200)))]"

text \<open>
  User 7 signs in with a token that expires in 60 s, inside the 300 s before expiry:
  the promise of \<open>setupRefreshTimer\<close> settles and the immediate refresh is promise 2.
\<close>

definition signed_in_expiring :: "(int \<times> event) list" where
  "signed_in_expiring =
     [(1000000, IdTokenChanged (Some 7)),
      (1000000, Settled 0 (Resolved (token_with_exp ''tokC'' 1060))),
      (1000000, Settled 1 (Resolved (token_with_exp ''tokC'' 1060)))]"


text \<open>Options whose scheme name is the number literal \<open>1e3\<close>.\<close>

definition numeric_scheme_options :: options where
  "numeric_scheme_options = DEFAULT_OPTIONS \<lparr> securitySchemeName := ''1e3'' \<rparr>"

text \<open>
  Two notifications for user 7 before any promise settles, so that two calls of
  \<open>setupRefreshTimer\<close> are in flight (promises 2 and 3); the first settles with a token
  that expires at second 4600 and sets timer 1.
\<close>

definition two_arming_calls :: "(int \<times> event) list" where
  "two_arming_calls =
     [(1000000, IdTokenChanged (Some 7)),
      (1000000, IdTokenChanged (Some 7)),
      (1000000, Settled 0 (Resolved (token_with_exp ''tokA'' 4600))),
      (1000000, Settled 1 (Resolved (token_with_exp ''tokA'' 4600))),
      (1000000, Settled 2 (Resolved (token_with_exp ''tokA'' 4600)))]"

text \<open>A token whose payload is \<open>{"exp": {}}\<close>: an expiry claim that is no number.\<close>

definition token_with_object_exp :: id_token where
  "token_with_object_exp =
     \<lparr> raw = ''tokO'', decodes_to = Decoded (JObj [(''exp'', JObj [])]), exp_to_number = None \<rparr>"


section \<open>Lemmas on the script's functions\<close>


lemma bit_length_le: "n < 2 ^ k \<Longrightarrow> bit_length n \<le> k"
proof (induction n arbitrary: k rule: bit_length.induct)
  case (1 n)
  show ?case
  proof (cases "n = 0")
    case True
    then show ?thesis by (subst bit_length.simps) simp
  next
    case False
    with "1.prems" obtain j where k: "k = Suc j"
      by (cases k) auto
    with "1.prems" have "n div 2 < 2 ^ j" by auto
    with "1.IH" [OF False] have "bit_length (n div 2) \<le> j" .
    with False k show ?thesis by (subst bit_length.simps) simp
  qed
qed

lemma to_double_exact: "\<bar>x\<bar> < 2 ^ 53 \<Longrightarrow> to_double x = x"
proof -
  assume "\<bar>x\<bar> < 2 ^ 53"
  then have "nat \<bar>x\<bar> < 2 ^ 53" by (simp add: nat_less_iff)
  then have "bit_length (nat \<bar>x\<bar>) \<le> 53" by (rule bit_length_le)
  then show ?thesis by (simp add: to_double_def Let_def)
qed

lemma scheme_key_identifier: "js_identifier_name n \<Longrightarrow> scheme_key n = Some n"
  by (simp add: scheme_key_def)

lemma scheme_key_firebase: "scheme_key ''firebase'' = Some ''firebase''"
  by (simp add: scheme_key_def js_identifier_name_def identifier_char_def digit_char_def)

lemmas script_defs =
  step_def settle_def onIdTokenChanged_def onIdTokenChanged_then_def clearRefreshTimer_def
  immediate_refresh_settled_def timer_callback_resume_def timer_callback_def
  setupRefreshTimer_catch_def setupRefreshTimer_then_def setupRefreshTimer_def
  updateSwaggerAuth_def parseJwt_def refresh_delay_def to_number_def num_times_def
  num_minus_def authorizeWithPersistOption_def logoutWithPersistOption_def console_add_def
  signOut_def getIdToken_def clearTimeout_def setTimeout_def

lemmas scenario_defs =
  refresh_race_def timer_fired_def armed_def signed_in_def signed_in_expiring_def
  two_arming_calls_def token_with_exp_def token_with_object_exp_def initial_def
  DEFAULT_OPTIONS_def run_def

lemma map_of_filter_fst_neq: "map_of (filter (\<lambda>e. fst e \<noteq> h) xs) h = None"
  by (induction xs) auto



lemma updateSwaggerAuth_fields:
  assumes "scheme_key (securitySchemeName opts) = Some key"
  shows "authCalls (updateSwaggerAuth opts token s) = authCalls s
     @ [LogoutWithPersistOption [securitySchemeName opts],
        AuthorizeWithPersistOption [(key, bearer_authorization opts (raw token))]]"
  and "map_of (authorized (updateSwaggerAuth opts token s)) key
     = Some (bearer_authorization opts (raw token))"
  and "refreshTimerId (updateSwaggerAuth opts token s) = refreshTimerId s"
  and "timers (updateSwaggerAuth opts token s) = timers s"
  and "nextHandle (updateSwaggerAuth opts token s) = nextHandle s"
  and "promises (updateSwaggerAuth opts token s) = promises s"
  and "nextPromise (updateSwaggerAuth opts token s) = nextPromise s"
  and "fetches (updateSwaggerAuth opts token s) = fetches s"
  and "signOuts (updateSwaggerAuth opts token s) = signOuts s"
  and "console (updateSwaggerAuth opts token s) = console s"
  using assms
  by (simp_all add: updateSwaggerAuth_def authorizeWithPersistOption_def
        logoutWithPersistOption_def)

lemma setupRefreshTimer_fields:
  "refreshTimerId (setupRefreshTimer u s) = None"
  "timers (setupRefreshTimer u s) =
     (case refreshTimerId s of
        Some h \<Rightarrow> filter (\<lambda>e. fst e \<noteq> h) (timers s)
      | None \<Rightarrow> timers s)"
  "promises (setupRefreshTimer u s) = promises s @ [(nextPromise s, SetupRefreshTimerThen u)]"
  "fetches (setupRefreshTimer u s) = fetches s @ [(nextPromise s, False)]"
  "nextPromise (setupRefreshTimer u s) = Suc (nextPromise s)"
  "nextHandle (setupRefreshTimer u s) = nextHandle s"
  "authCalls (setupRefreshTimer u s) = authCalls s"
  "authorized (setupRefreshTimer u s) = authorized s"
  "signOuts (setupRefreshTimer u s) = signOuts s"
  "console (setupRefreshTimer u s) = console s"
  by (simp_all add: setupRefreshTimer_def getIdToken_def clearTimeout_def split: option.splits)

lemma console_add_fields:
  "refreshTimerId (console_add c s) = refreshTimerId s"
  "timers (console_add c s) = timers s"
  "nextHandle (console_add c s) = nextHandle s"
  "promises (console_add c s) = promises s"
  "nextPromise (console_add c s) = nextPromise s"
  "fetches (console_add c s) = fetches s"
  "authCalls (console_add c s) = authCalls s"
  "authorized (console_add c s) = authorized s"
  "signOuts (console_add c s) = signOuts s"
  "console (console_add c s) = console s @ [c]"
  by (simp_all add: console_add_def)


text \<open>
  The handler on a notification without a user: it cancels the stored handle, logs out
  the scheme, and makes no other call on \<open>authActions\<close>.
\<close>

lemma sign_out_notification:
  "refreshTimerId (step opts now (IdTokenChanged None) s) = None"
  "timers (step opts now (IdTokenChanged None) s) =
     (case refreshTimerId s of
        Some h \<Rightarrow> filter (\<lambda>e. fst e \<noteq> h) (timers s)
      | None \<Rightarrow> timers s)"
  "authCalls (step opts now (IdTokenChanged None) s) =
     authCalls s @ [LogoutWithPersistOption [securitySchemeName opts]]"
  "map_of (authorized (step opts now (IdTokenChanged None) s)) (securitySchemeName opts) = None"
  "promises (step opts now (IdTokenChanged None) s) = promises s"
  if "scheme_key (securitySchemeName opts) = Some key"
  using that
  by (simp_all add: step_def onIdTokenChanged_def clearRefreshTimer_def
        logoutWithPersistOption_def console_add_def clearTimeout_def map_of_eq_None_iff
        image_iff split: option.splits)


lemma DEFAULT_OPTIONS_fields:
  "securitySchemeName DEFAULT_OPTIONS = ''firebase''"
  "refreshBeforeExpiryMs DEFAULT_OPTIONS = 300000"
  by (simp_all add: DEFAULT_OPTIONS_def)



lemma bit_length_ge: "2 ^ k \<le> n \<Longrightarrow> Suc k \<le> bit_length n"
proof (induction n arbitrary: k rule: bit_length.induct)
  case (1 n)
  have "0 < (2::nat) ^ k" by simp
  with "1.prems" have n0: "n \<noteq> 0" by linarith
  show ?case
  proof (cases k)
    case 0
    with n0 show ?thesis by (subst bit_length.simps) simp
  next
    case (Suc j)
    with "1.prems" have "2 ^ j \<le> n div 2" by auto
    with "1.IH" [OF n0] have "Suc j \<le> bit_length (n div 2)" .
    with n0 Suc show ?thesis by (subst bit_length.simps) simp
  qed
qed

lemma bit_length_eq: "2 ^ k \<le> n \<Longrightarrow> n < 2 ^ Suc k \<Longrightarrow> bit_length n = Suc k"
  using bit_length_ge [of k n] bit_length_le [of n "Suc k"] by simp

lemma to_double_big:
  "to_double 9007199254740992 = 9007199254740992"
  "to_double 9007199254740992000 = 9007199254740992000"
  "to_double 9007199254740692000 = 9007199254740691968"
  "to_double 9007199254739691968 = 9007199254739691520"
proof -
  have b: "bit_length 9007199254740992 = 54" "bit_length 9007199254740992000 = 63"
    "bit_length 9007199254740692000 = 63" "bit_length 9007199254739691968 = 63"
    using bit_length_eq [of 53 9007199254740992] bit_length_eq [of 62 9007199254740992000]
      bit_length_eq [of 62 9007199254740692000] bit_length_eq [of 62 9007199254739691968]
    by simp_all
  show "to_double 9007199254740992 = 9007199254740992"
    "to_double 9007199254740992000 = 9007199254740992000"
    "to_double 9007199254740692000 = 9007199254740691968"
    "to_double 9007199254739691968 = 9007199254739691520"
    by (simp_all add: to_double_def Let_def b)
qed

lemma setupRefreshTimer_then_delay:
  assumes "decodes_to token = Decoded decoded" and "truthy decoded"
    and "truthy (get_prop decoded ''exp'')"
  shows "setupRefreshTimer_then opts now u token s =
     (case refresh_delay opts now token decoded of
        Some delay \<Rightarrow>
          if delay > 0 then
            s\<lparr> console := console s @ [ConsoleLogScheduled delay],
               timers := timers s @ [(nextHandle s, \<lparr> timer_user = u, timer_delay = delay \<rparr>)],
               nextHandle := Suc (nextHandle s),
               refreshTimerId := Some (nextHandle s) \<rparr>
          else
            getIdToken True (ImmediateRefresh u)
              (console_add
                 (ConsoleLog
                    ''[swagger-ui-firebase-auth] Token expired or expiring soon, refreshing immediately'')
                 s)
      | None \<Rightarrow>
          getIdToken True (ImmediateRefresh u)
            (console_add
               (ConsoleLog
                  ''[swagger-ui-firebase-auth] Token expired or expiring soon, refreshing immediately'')
               s))"
  using assms
  by (simp add: setupRefreshTimer_then_def parseJwt_def setTimeout_def console_add_def Let_def
        split: option.splits)

lemma refresh_delay_number:
  "get_prop decoded ''exp'' = JNum e \<Longrightarrow>
   refresh_delay opts now token decoded =
     Some (to_double (to_double (to_double (to_double e * 1000)
             - to_double (refreshBeforeExpiryMs opts)) - to_double now))"
  by (simp add: refresh_delay_def to_number_def num_times_def num_minus_def)

lemma get_prop_truthy: "get_prop decoded k = JNum e \<Longrightarrow> truthy decoded"
  by (cases decoded) simp_all



text \<open>
  What the two paths do when the forced refresh fails: both log the error and retry
  nothing (no promise, no fetch, no timer, no call on Swagger UI); the timer callback
  signs out exactly on \<open>auth/user-token-expired\<close> and \<open>auth/invalid-user-token\<close>,
  the immediate refresh on every failure.
\<close>

lemma forced_refresh_failure:
  assumes "scheme_key (securitySchemeName opts) = Some key"
    and "map_of (promises s) p = Some k"
  shows "let s' = step opts now (Settled p (Rejected code)) s in
          (k = TimerRefresh u \<longrightarrow>
             console s' = console s
               @ [ConsoleError ''[swagger-ui-firebase-auth] Token refresh failed:'']
               @ (if session_invalid code
                  then [ConsoleLog ''[swagger-ui-firebase-auth] Session expired, signing out'']
                  else [])
             \<and> signOuts s' = (if session_invalid code then Suc (signOuts s) else signOuts s))
        \<and> (k = ImmediateRefresh u \<longrightarrow>
             console s' = console s
               @ [ConsoleError ''[swagger-ui-firebase-auth] Immediate token refresh failed:'']
             \<and> signOuts s' = Suc (signOuts s))
        \<and> (k = TimerRefresh u \<or> k = ImmediateRefresh u \<longrightarrow>
             promises s' = filter (\<lambda>e. fst e \<noteq> p) (promises s)
             \<and> timers s' = timers s \<and> refreshTimerId s' = refreshTimerId s
             \<and> fetches s' = fetches s
             \<and> authCalls s' = authCalls s \<and> authorized s' = authorized s)"
  using assms
  by (auto simp add: script_defs Let_def)

lemma setupRefreshTimer_then_authCalls:
  "authCalls (setupRefreshTimer_then opts now u token s) = authCalls s"
  by (simp add: setupRefreshTimer_then_def parseJwt_def setTimeout_def getIdToken_def
        console_add_def Let_def split: decode_outcome.splits option.splits prod.splits)

lemma clearRefreshTimer_authCalls: "authCalls (clearRefreshTimer s) = authCalls s"
  by (simp add: clearRefreshTimer_def console_add_def clearTimeout_def split: option.splits)

lemma settle_authCalls:
  assumes key: "scheme_key (securitySchemeName opts) = Some (securitySchemeName opts)"
  shows "\<exists>cs. authCalls (settle opts now k r s) = authCalls s @ cs \<and> list_all (bearer_set opts) cs"
proof (cases r)
  case (Resolved t)
  then show ?thesis
    by (cases k)
      (simp_all add: settle_def onIdTokenChanged_then_def timer_callback_resume_def
        immediate_refresh_settled_def setupRefreshTimer_fields
        updateSwaggerAuth_fields [OF key] console_add_fields setupRefreshTimer_then_authCalls bearer_set_def
        bearer_authorization_def)
next
  case (Rejected code)
  then show ?thesis
    by (cases k)
      (simp_all add: settle_def setupRefreshTimer_catch_def timer_callback_resume_def
        immediate_refresh_settled_def console_add_def signOut_def Let_def)
qed

lemma step_authCalls:
  assumes key: "scheme_key (securitySchemeName opts) = Some (securitySchemeName opts)"
  shows "\<exists>cs. authCalls (step opts now ev s) = authCalls s @ cs \<and> list_all (bearer_set opts) cs"
proof (cases ev)
  case (IdTokenChanged user)
  with key show ?thesis
    by (cases user)
      (simp_all add: step_def onIdTokenChanged_def getIdToken_def logoutWithPersistOption_def
        clearRefreshTimer_authCalls bearer_set_def)
next
  case (TimerFired h)
  with key show ?thesis
    by (simp add: step_def timer_callback_def getIdToken_def clearTimeout_def
          split: option.splits)
next
  case (Settled p r)
  show ?thesis
  proof (cases "map_of (promises s) p")
    case None
    with Settled key show ?thesis by (simp add: step_def)
  next
    case (Some k)
    with Settled key settle_authCalls [OF key, of now k r
        "s\<lparr> promises := filter (\<lambda>e. fst e \<noteq> p) (promises s) \<rparr>"]
    show ?thesis by (simp add: step_def)
  qed
qed

lemma run_authCalls:
  "scheme_key (securitySchemeName opts) = Some (securitySchemeName opts) \<Longrightarrow>
   list_all (bearer_set opts) (authCalls s) \<Longrightarrow>
   list_all (bearer_set opts) (authCalls (run opts evs s))"
proof (induction evs arbitrary: s)
  case Nil
  then show ?case by (simp add: run_def)
next
  case (Cons e evs)
  obtain cs where "authCalls (step opts (fst e) (snd e) s) = authCalls s @ cs"
    and "list_all (bearer_set opts) cs"
    using step_authCalls [OF Cons.prems(1)] by blast
  with Cons.prems have "list_all (bearer_set opts) (authCalls (step opts (fst e) (snd e) s))"
    by simp
  then have "list_all (bearer_set opts) (authCalls (run opts evs (step opts (fst e) (snd e) s)))"
    by (rule Cons.IH [OF Cons.prems(1)])
  then show ?case by (simp add: run_def)
qed

lemma updateSwaggerAuth_identifier:
  assumes "js_identifier_name (securitySchemeName opts)"
  shows "authCalls (updateSwaggerAuth opts token s) = authCalls s
     @ [LogoutWithPersistOption [securitySchemeName opts],
        AuthorizeWithPersistOption
          [(securitySchemeName opts,
            \<lparr> auth_name = securitySchemeName opts,
              auth_schema =
                \<lparr> schema_type = ''apiKey'', schema_in = ''header'',
                  schema_name = ''authorization'' \<rparr>,
              auth_value = ''Bearer '' @ raw token \<rparr>)]]"
    and "list_all (bearer_set opts) (authCalls (run opts evs initial))"
proof -
  have key: "scheme_key (securitySchemeName opts) = Some (securitySchemeName opts)"
    using assms by (rule scheme_key_identifier)
  show "authCalls (updateSwaggerAuth opts token s) = authCalls s
     @ [LogoutWithPersistOption [securitySchemeName opts],
        AuthorizeWithPersistOption
          [(securitySchemeName opts,
            \<lparr> auth_name = securitySchemeName opts,
              auth_schema =
                \<lparr> schema_type = ''apiKey'', schema_in = ''header'',
                  schema_name = ''authorization'' \<rparr>,
              auth_value = ''Bearer '' @ raw token \<rparr>)]]"
    by (simp add: updateSwaggerAuth_fields [OF key] bearer_authorization_def)
  have "list_all (bearer_set opts) (authCalls initial)"
    by (simp add: initial_def)
  with key show "list_all (bearer_set opts) (authCalls (run opts evs initial))"
    by (rule run_authCalls)
qed

lemma decimal_1000: "decimal 1000 = ''1000''"
  by (simp add: decimal.simps [of 1000] decimal.simps [of 100] decimal.simps [of 10]
        decimal.simps [of "Suc 0"] decimal_digit_def)

lemma scheme_key_1e3: "scheme_key ''1e3'' = Some ''1000''"
  by (simp add: scheme_key_def js_identifier_name_def identifier_char_def digit_char_def
        exponent_literal_def nat_of_digits_def decimal_1000)

lemma buildSignInOptions_fold:
  "fold buildSignInOptions_push providers (acc, warned) =
     (acc @ List.map_filter signInEntry providers,
      warned @ filter (\<lambda>p. signInEntry p = None) providers)"
proof (induction providers arbitrary: acc warned)
  case Nil
  then show ?case by (simp add: List.map_filter_simps)
next
  case (Cons p ps)
  show ?case
  proof (cases "signInEntry p")
    case None
    then have "buildSignInOptions_push p (acc, warned) = (acc, warned @ [p])"
      by (auto simp add: signInEntry_def split: if_splits jsval.splits option.splits)
    with None Cons.IH show ?thesis by (simp add: List.map_filter_simps)
  next
    case (Some v)
    then have "buildSignInOptions_push p (acc, warned) = (acc @ [v], warned)"
      by (auto simp add: signInEntry_def split: if_splits jsval.splits option.splits)
    with Some Cons.IH show ?thesis by (simp add: List.map_filter_simps)
  qed
qed

lemma generateSignInOptionsCode_fold:
  "fold (generateSignInOptionsCode_push js) providers acc =
     acc @ List.map_filter (signInEntryCode js) providers"
proof (induction providers arbitrary: acc)
  case Nil
  then show ?case by (simp add: List.map_filter_simps)
next
  case (Cons p ps)
  show ?case
  proof (cases "signInEntryCode js p")
    case None
    then have "generateSignInOptionsCode_push js p acc = acc"
      by (auto simp add: signInEntryCode_def split: if_splits jsval.splits option.splits)
    with None Cons.IH show ?thesis by (simp add: List.map_filter_simps)
  next
    case (Some c)
    then have "generateSignInOptionsCode_push js p acc = acc @ [c]"
      by (auto simp add: signInEntryCode_def split: if_splits jsval.splits option.splits)
    with Some Cons.IH show ?thesis by (simp add: List.map_filter_simps)
  qed
qed

lemma map_filter_all_Some:
  "list_all (\<lambda>p. f p \<noteq> None) ps \<Longrightarrow> map Some (List.map_filter f ps) = map f ps"
  by (induction ps) (auto simp add: List.map_filter_simps)

lemma signInOptionCode_of_None: "signInOptionCode_of s = None \<longleftrightarrow> signInOption_of s = None"
  by (simp add: signInOptionCode_of_def signInOption_of_def)

lemma signInEntryCode_None: "signInEntryCode js p = None \<longleftrightarrow> signInEntry p = None"
  by (cases p) (simp_all add: signInEntryCode_def signInEntry_def signInOptionCode_of_None)



section \<open>The claims\<close>

text \<open>
  C1. At most one refresh timer is pending at any instant: arming a new timer first
  cancels the stored handle, and sign-out cleanup cancels any pending timer. The script
  cancels the stored handle when \<open>setupRefreshTimer\<close> is called, not when its promise
  settles and the timer is set. In \<open>refresh_race\<close> two calls of \<open>setupRefreshTimer\<close>
  are in flight together: before the last event, timer 2 is pending and stored; the last
  event sets timer 3 and stores it without cancelling timer 2, so two timers are pending.
\<close>

theorem two_refresh_timers_pending:
  "timers (run DEFAULT_OPTIONS (butlast refresh_race) initial) =
     [(2, \<lparr> timer_user = 7, timer_delay = 3599500 \<rparr>)]
   \<and> refreshTimerId (run DEFAULT_OPTIONS (butlast refresh_race) initial) = Some 2
   \<and> timers (run DEFAULT_OPTIONS refresh_race initial) =
       [(2, \<lparr> timer_user = 7, timer_delay = 3599500 \<rparr>),
        (3, \<lparr> timer_user = 7, timer_delay = 3599500 \<rparr>)]
   \<and> refreshTimerId (run DEFAULT_OPTIONS refresh_race initial) = Some 3"
  by (simp add: scenario_defs script_defs scheme_key_firebase to_double_exact session_invalid_def)

text \<open>
  C2. When the token decodes to an expiry claim \<open>exp\<close> that is a number other than
  \<open>0\<close>, the callback of \<open>setupRefreshTimer\<close> computes
  \<open>delay = exp * 1000 - refreshBeforeExpiryMs - now\<close> in doubles, which is that
  number itself while the magnitudes stay below \<open>2^53\<close>; if \<open>delay > 0\<close> it sets
  exactly one timer with that delay, which is no longer pending once it has fired and
  which fires after \<open>delay\<close> milliseconds when \<open>delay < 2^31\<close>, and starts no fetch;
  if \<open>delay \<le> 0\<close> it starts the forced fetch within the same arming call and sets
  no timer.
\<close>

theorem arming_schedules_or_refreshes:
  assumes decodes: "decodes_to token = Decoded decoded"
    and claim: "get_prop decoded ''exp'' = JNum e" and nonzero: "e \<noteq> 0"
    and range: "double_range e" "double_range (refreshBeforeExpiryMs opts)" "double_range now"
    and runs: "scheme_key (securitySchemeName opts) = Some key"
  shows "let delay = to_double (to_double (to_double (to_double e * 1000)
                       - to_double (refreshBeforeExpiryMs opts)) - to_double now);
             s' = setupRefreshTimer_then opts now u token s
         in (0 < delay \<longrightarrow>
               timers s' = timers s @ [(nextHandle s, \<lparr> timer_user = u, timer_delay = delay \<rparr>)]
               \<and> refreshTimerId s' = Some (nextHandle s)
               \<and> promises s' = promises s \<and> fetches s' = fetches s
               \<and> map_of (timers (step opts later (TimerFired (nextHandle s)) s')) (nextHandle s) = None
               \<and> (delay < 2 ^ 31 \<longrightarrow> fires_after \<lparr> timer_user = u, timer_delay = delay \<rparr> = delay))
          \<and> (delay \<le> 0 \<longrightarrow>
               timers s' = timers s
               \<and> refreshTimerId s' = refreshTimerId s
               \<and> promises s' = promises s @ [(nextPromise s, ImmediateRefresh u)]
               \<and> fetches s' = fetches s @ [(nextPromise s, True)])
          \<and> (\<bar>e * 1000\<bar> < 2 ^ 53 \<and> \<bar>refreshBeforeExpiryMs opts\<bar> < 2 ^ 53 \<and> \<bar>now\<bar> < 2 ^ 53
               \<and> \<bar>e * 1000 - refreshBeforeExpiryMs opts\<bar> < 2 ^ 53
               \<and> \<bar>e * 1000 - refreshBeforeExpiryMs opts - now\<bar> < 2 ^ 53 \<longrightarrow>
               delay = e * 1000 - refreshBeforeExpiryMs opts - now)"
proof -
  define delay where "delay = to_double (to_double (to_double (to_double e * 1000)
                       - to_double (refreshBeforeExpiryMs opts)) - to_double now)"
  define s' where "s' = setupRefreshTimer_then opts now u token s"
  have t: "truthy decoded" "truthy (get_prop decoded ''exp'')"
    using claim nonzero get_prop_truthy [OF claim] by simp_all
  have d: "refresh_delay opts now token decoded = Some delay"
    unfolding delay_def using claim by (rule refresh_delay_number)
  have pos: "timers s' = timers s @ [(nextHandle s, \<lparr> timer_user = u, timer_delay = delay \<rparr>)]
      \<and> refreshTimerId s' = Some (nextHandle s)
      \<and> promises s' = promises s \<and> fetches s' = fetches s
      \<and> map_of (timers (step opts later (TimerFired (nextHandle s)) s')) (nextHandle s) = None
      \<and> (delay < 2 ^ 31 \<longrightarrow> fires_after \<lparr> timer_user = u, timer_delay = delay \<rparr> = delay)"
    if "0 < delay"
  proof -
    have f: "delay < 2 ^ 31 \<longrightarrow> fires_after \<lparr> timer_user = u, timer_delay = delay \<rparr> = delay"
      using that by (auto simp add: fires_after_def timeout_ms_def Let_def)
    have "s' = s\<lparr> console := console s @ [ConsoleLogScheduled delay],
               timers := timers s @ [(nextHandle s, \<lparr> timer_user = u, timer_delay = delay \<rparr>)],
               nextHandle := Suc (nextHandle s),
               refreshTimerId := Some (nextHandle s) \<rparr>"
      unfolding s'_def using that by (simp add: setupRefreshTimer_then_delay [OF decodes t] d)
    then show ?thesis
      using f runs
      by (simp add: step_def timer_callback_def getIdToken_def clearTimeout_def
            map_of_filter_fst_neq split: option.splits)
  qed
  have neg: "timers s' = timers s \<and> refreshTimerId s' = refreshTimerId s
      \<and> promises s' = promises s @ [(nextPromise s, ImmediateRefresh u)]
      \<and> fetches s' = fetches s @ [(nextPromise s, True)]"
    if "delay \<le> 0"
    unfolding s'_def using that
    by (simp add: setupRefreshTimer_then_delay [OF decodes t] d getIdToken_def console_add_def)
  have exact: "delay = e * 1000 - refreshBeforeExpiryMs opts - now"
    if "\<bar>e * 1000\<bar> < 2 ^ 53" "\<bar>refreshBeforeExpiryMs opts\<bar> < 2 ^ 53" "\<bar>now\<bar> < 2 ^ 53"
      "\<bar>e * 1000 - refreshBeforeExpiryMs opts\<bar> < 2 ^ 53"
      "\<bar>e * 1000 - refreshBeforeExpiryMs opts - now\<bar> < 2 ^ 53"
  proof -
    from that(1) have "\<bar>e\<bar> < 2 ^ 53" by (simp add: abs_mult)
    with that show ?thesis by (simp add: delay_def to_double_exact)
  qed
  show ?thesis
    unfolding Let_def delay_def [symmetric] s'_def [symmetric]
    using pos neg exact by blast
qed

text \<open>
  The example of the specification: a token that expires in 3600 s, with the default
  300000 ms, gives a timer of 3300000 ms; one that expires in 60 s gives a forced fetch.
\<close>

theorem arming_schedules_or_refreshes_witness:
  "timers (setupRefreshTimer_then DEFAULT_OPTIONS 1000000 7 (token_with_exp ''tokA'' 4600) initial) =
     [(1, \<lparr> timer_user = 7, timer_delay = 3300000 \<rparr>)]
   \<and> promises (setupRefreshTimer_then DEFAULT_OPTIONS 1000000 7 (token_with_exp ''tokA'' 4600) initial) = []
   \<and> fires_after \<lparr> timer_user = 7, timer_delay = 3300000 \<rparr> = 3300000
   \<and> timers (setupRefreshTimer_then DEFAULT_OPTIONS 1000000 7 (token_with_exp ''tokC'' 1060) initial) = []
   \<and> promises (setupRefreshTimer_then DEFAULT_OPTIONS 1000000 7 (token_with_exp ''tokC'' 1060) initial) =
       [(0, ImmediateRefresh 7)]
   \<and> fetches (setupRefreshTimer_then DEFAULT_OPTIONS 1000000 7 (token_with_exp ''tokC'' 1060) initial) =
       [(0, True)]"
proof -
  have k: "scheme_key (securitySchemeName DEFAULT_OPTIONS) = Some ''firebase''"
    by (simp add: DEFAULT_OPTIONS_fields scheme_key_firebase)
  have r: "double_range 4600" "double_range 1060"
    "double_range (refreshBeforeExpiryMs DEFAULT_OPTIONS)" "double_range 1000000"
    by (simp_all add: double_range_def DEFAULT_OPTIONS_fields)
  have a: "decodes_to (token_with_exp ''tokA'' 4600) = Decoded (JObj [(''exp'', JNum 4600)])"
    "get_prop (JObj [(''exp'', JNum 4600)]) ''exp'' = JNum 4600"
    by (simp_all add: token_with_exp_def)
  have c: "decodes_to (token_with_exp ''tokC'' 1060) = Decoded (JObj [(''exp'', JNum 1060)])"
    "get_prop (JObj [(''exp'', JNum 1060)]) ''exp'' = JNum 1060"
    by (simp_all add: token_with_exp_def)
  show ?thesis
    using
      arming_schedules_or_refreshes [OF a _ r(1) r(3) r(4) k, of 7 initial 4300000]
      arming_schedules_or_refreshes [OF c _ r(2) r(3) r(4) k, of 7 initial 4300000]
    by (simp add: Let_def to_double_exact DEFAULT_OPTIONS_fields initial_def)
qed

text \<open>
  Where the claim as written fails. An expiry claim of \<open>0\<close>: the delay is negative,
  and the callback starts no forced fetch; \<open>!decoded.exp\<close> takes it for a missing
  claim, warns and returns. An expiry claim of \<open>2^53\<close>: the delay set is not
  \<open>exp * 1000 - refreshBeforeExpiryMs - now\<close>. An expiry 4000000 s away: the delay is
  above \<open>2^31\<close> and the timeout fires at once.
\<close>

theorem zero_expiry_counterexample:
  "0 * 1000 - refreshBeforeExpiryMs DEFAULT_OPTIONS - 1000000 \<le> 0
   \<and> promises (setupRefreshTimer_then DEFAULT_OPTIONS 1000000 7 (token_with_exp ''tokZ'' 0) initial) = []
   \<and> timers (setupRefreshTimer_then DEFAULT_OPTIONS 1000000 7 (token_with_exp ''tokZ'' 0) initial) = []
   \<and> console (setupRefreshTimer_then DEFAULT_OPTIONS 1000000 7 (token_with_exp ''tokZ'' 0) initial) =
       [ConsoleWarn ''[swagger-ui-firebase-auth] Could not parse JWT expiration'']
   \<and> timers (setupRefreshTimer_then DEFAULT_OPTIONS 1000000 7
        (token_with_exp ''tokD'' 9007199254740992) initial) =
       [(1, \<lparr> timer_user = 7, timer_delay = 9007199254739691520 \<rparr>)]
   \<and> 9007199254740992 * 1000 - refreshBeforeExpiryMs DEFAULT_OPTIONS - 1000000
       = (9007199254739692000 :: int)
   \<and> timers (setupRefreshTimer_then DEFAULT_OPTIONS 1000000 7
        (token_with_exp ''tokL'' 4000000) initial) =
       [(1, \<lparr> timer_user = 7, timer_delay = 3998700000 \<rparr>)]
   \<and> fires_after \<lparr> timer_user = 7, timer_delay = 3998700000 \<rparr> = 0"
  by (simp add: setupRefreshTimer_then_def parseJwt_def refresh_delay_def to_number_def
        num_times_def num_minus_def setTimeout_def console_add_def getIdToken_def
        token_with_exp_def initial_def DEFAULT_OPTIONS_fields to_double_exact to_double_big
        fires_after_def timeout_ms_def Let_def)

text \<open>
  C3. When a forced refresh fails, the error is logged, and the user is signed out if and
  only if the failure says that the session is invalid; any other failure is logged only,
  with no sign-out and no retry. The timer callback does so. The \<open>catch\<close> of the
  immediate refresh calls \<open>signOut\<close> without reading the code: in
  \<open>signed_in_expiring\<close> the immediate refresh (promise 2) fails with a network error,
  which is not an invalid session, and the user is signed out.
\<close>

theorem immediate_refresh_failure_signs_out:
  "promises (run DEFAULT_OPTIONS signed_in_expiring initial) = [(2, ImmediateRefresh 7)]
   \<and> \<not> session_invalid (Some ''auth/network-request-failed'')
   \<and> signOuts (run DEFAULT_OPTIONS signed_in_expiring initial) = 0
   \<and> signOuts (run DEFAULT_OPTIONS
        (signed_in_expiring @ [(1000200, Settled 2 (Rejected (Some ''auth/network-request-failed'')))])
        initial) = 1"
  by (simp add: scenario_defs script_defs scheme_key_firebase to_double_exact session_invalid_def)




text \<open>
  C5. After an identity-changed notification without a user, any pending refresh timer
  is cancelled, the authorization of the scheme is cleared, and nothing is set. The
  handler cancels the stored handle only: after \<open>refresh_race\<close>, where timers 2 and 3
  are pending and 3 is stored, the notification clears the authorization and leaves
  timer 2 pending.
\<close>

theorem sign_out_leaves_timer_pending:
  "timers (run DEFAULT_OPTIONS (refresh_race @ [(4300600, IdTokenChanged None)]) initial) =
     [(2, \<lparr> timer_user = 7, timer_delay = 3599500 \<rparr>)]
   \<and> refreshTimerId
        (run DEFAULT_OPTIONS (refresh_race @ [(4300600, IdTokenChanged None)]) initial) = None
   \<and> map_of (authorized
        (run DEFAULT_OPTIONS (refresh_race @ [(4300600, IdTokenChanged None)]) initial))
        ''firebase'' = None"
  by (simp add: scenario_defs script_defs scheme_key_firebase to_double_exact session_invalid_def)




text \<open>
  C7. The sign-in options hold one entry for every provider whose \<open>typeof\<close> is
  \<open>object\<close> (an object, an array or \<open>null\<close>) or that is one of the nine known
  names, in the order of the input: an object is passed through as it is
  (\<open>buildSignInOptions\<close>) or serialised by \<open>JSON.stringify\<close>
  (\<open>generateSignInOptionsCode\<close>), a known name gives its fixed entry. Any other
  provider gives no entry (\<open>buildSignInOptions\<close> warns about it). So a list of
  recognised providers gives exactly one entry per provider.
\<close>

theorem sign_in_options_per_recognised_provider:
  "fst (buildSignInOptions providers) = List.map_filter signInEntry providers
   \<and> snd (buildSignInOptions providers) = filter (\<lambda>p. signInEntry p = None) providers
   \<and> generateSignInOptionsCode_options js providers
       = List.map_filter (signInEntryCode js) providers
   \<and> (list_all (\<lambda>p. signInEntry p \<noteq> None) providers \<longrightarrow>
        length (fst (buildSignInOptions providers)) = length providers
      \<and> length (generateSignInOptionsCode_options js providers) = length providers
      \<and> (\<forall>i < length providers.
            signInEntry (providers ! i) = Some (fst (buildSignInOptions providers) ! i)
          \<and> signInEntryCode js (providers ! i)
              = Some (generateSignInOptionsCode_options js providers ! i)
          \<and> (typeof_object (providers ! i) \<longrightarrow>
                fst (buildSignInOptions providers) ! i = providers ! i)))"
proof -
  have b: "buildSignInOptions providers =
      (List.map_filter signInEntry providers, filter (\<lambda>p. signInEntry p = None) providers)"
    using buildSignInOptions_fold [of providers "[]" "[]"] by (simp add: buildSignInOptions_def)
  have g: "generateSignInOptionsCode_options js providers
      = List.map_filter (signInEntryCode js) providers"
    using generateSignInOptionsCode_fold [of js providers "[]"]
    by (simp add: generateSignInOptionsCode_options_def)
  have all: "length (fst (buildSignInOptions providers)) = length providers
      \<and> length (generateSignInOptionsCode_options js providers) = length providers
      \<and> (\<forall>i < length providers.
            signInEntry (providers ! i) = Some (fst (buildSignInOptions providers) ! i)
          \<and> signInEntryCode js (providers ! i)
              = Some (generateSignInOptionsCode_options js providers ! i)
          \<and> (typeof_object (providers ! i) \<longrightarrow>
                fst (buildSignInOptions providers) ! i = providers ! i))"
    if rec: "list_all (\<lambda>p. signInEntry p \<noteq> None) providers"
  proof -
    from rec have rec': "list_all (\<lambda>p. signInEntryCode js p \<noteq> None) providers"
      by (simp add: signInEntryCode_None)
    have m1: "map Some (fst (buildSignInOptions providers)) = map signInEntry providers"
      using map_filter_all_Some [OF rec] by (simp add: b)
    have m2: "map Some (generateSignInOptionsCode_options js providers)
        = map (signInEntryCode js) providers"
      using map_filter_all_Some [OF rec'] by (simp add: g)
    have l1: "length (fst (buildSignInOptions providers)) = length providers"
      using arg_cong [OF m1, of length] by simp
    have l2: "length (generateSignInOptionsCode_options js providers) = length providers"
      using arg_cong [OF m2, of length] by simp
    have n: "signInEntry (providers ! i) = Some (fst (buildSignInOptions providers) ! i)
        \<and> signInEntryCode js (providers ! i)
            = Some (generateSignInOptionsCode_options js providers ! i)
        \<and> (typeof_object (providers ! i) \<longrightarrow>
              fst (buildSignInOptions providers) ! i = providers ! i)"
      if i: "i < length providers" for i
    proof -
      have "map Some (fst (buildSignInOptions providers)) ! i = map signInEntry providers ! i"
        by (simp only: m1)
      with i l1 have e1: "signInEntry (providers ! i) = Some (fst (buildSignInOptions providers) ! i)"
        by simp
      have "map Some (generateSignInOptionsCode_options js providers) ! i
          = map (signInEntryCode js) providers ! i"
        by (simp only: m2)
      with i l2 have e2: "signInEntryCode js (providers ! i)
          = Some (generateSignInOptionsCode_options js providers ! i)"
        by simp
      from e1 have "typeof_object (providers ! i) \<longrightarrow>
          fst (buildSignInOptions providers) ! i = providers ! i"
        by (auto simp add: signInEntry_def)
      with e1 e2 show ?thesis by blast
    qed
    from l1 l2 n show ?thesis by blast
  qed
  from b g all show ?thesis by simp
qed

theorem sign_in_options_per_recognised_provider_witness:
  "fst (buildSignInOptions
          [JStr ''email'', JObj [(''provider'', JStr ''password'')], JStr ''google'']) =
     [JObj [(''provider'', JStr ''firebase.auth.EmailAuthProvider.PROVIDER_ID''),
            (''requireDisplayName'', JBool False)],
      JObj [(''provider'', JStr ''password'')],
      JObj [(''provider'', JStr ''firebase.auth.GoogleAuthProvider.PROVIDER_ID''),
            (''customParameters'', JObj [(''prompt'', JStr ''select_account'')])]]"
  using sign_in_options_per_recognised_provider
    [of "[JStr ''email'', JObj [(''provider'', JStr ''password'')], JStr ''google'']" plain_builtins]
  by (simp add: List.map_filter_simps signInEntry_def signInOption_of_def)

text \<open>A name that the \<open>switch\<close> does not know: two providers, one entry.\<close>

theorem unknown_provider_counterexample:
  "length (fst (buildSignInOptions [JStr ''email'', JStr ''linkedin''])) = 1
   \<and> length (generateSignInOptionsCode_options plain_builtins [JStr ''email'', JStr ''linkedin'']) = 1
   \<and> length [JStr ''email'', JStr ''linkedin''] = 2"
  by (simp add: buildSignInOptions_def generateSignInOptionsCode_options_def
        signInOption_of_def signInOptionCode_of_def)

text \<open>
  C8. When the Firebase configuration is absent or falsy, or its \<open>apiKey\<close> is missing
  or falsy, \<open>createSwaggerFirebaseAuth\<close> throws the configuration error and returns
  no result object. No other field is checked.
\<close>

theorem missing_apiKey_is_configuration_error:
  assumes "\<not> truthy firebaseConfig \<or> \<not> truthy (get_prop firebaseConfig ''apiKey'')"
  shows "createSwaggerFirebaseAuth script_text js firebaseConfig given =
           Inl (Error ''Firebase config with apiKey is required'')"
  using assms by (simp add: createSwaggerFirebaseAuth_def)

theorem missing_apiKey_is_configuration_error_witness:
  "createSwaggerFirebaseAuth no_script_text plain_builtins
     (JObj [(''authDomain'', JStr ''p.firebaseapp.com''), (''projectId'', JStr ''p'')]) no_options =
   Inl (Error ''Firebase config with apiKey is required'')"
  using missing_apiKey_is_configuration_error
    [of "JObj [(''authDomain'', JStr ''p.firebaseapp.com''), (''projectId'', JStr ''p'')]"
        no_script_text plain_builtins no_options]
  by simp

text \<open>
  A configuration with an \<open>apiKey\<close> only lacks \<open>authDomain\<close> and \<open>projectId\<close>,
  which index.d.ts requires; nothing is thrown, and the result object with the script is
  returned.
\<close>

theorem missing_authDomain_counterexample:
  "missing_required_field (JObj [(''apiKey'', JStr ''AIza'')])
   \<and> \<not> isl (generatePluginScript no_script_text plain_builtins
              (JObj [(''apiKey'', JStr ''AIza'')]) no_options)
   \<and> createSwaggerFirebaseAuth no_script_text plain_builtins
        (JObj [(''apiKey'', JStr ''AIza'')]) no_options =
      map_sum id
        (\<lambda>script. \<lparr> customJs = FIREBASE_JS_URLS, customCssUrl = FIREBASE_CSS_URL,
                     initScript = script \<rparr>)
        (generatePluginScript no_script_text plain_builtins
           (JObj [(''apiKey'', JStr ''AIza'')]) no_options)"
  by (simp add: missing_required_field_def FirebaseConfig_required_def
        createSwaggerFirebaseAuth_def generatePluginScript_def generateSignInOptionsCode_def
        merge_options_def DEFAULT_OPTIONS_def no_options_def Let_def)




text \<open>
  C10. Every set that \<open>updateSwaggerAuth\<close> makes writes, under the configured scheme
  name, an entry with the schema \<open>apiKey\<close>, \<open>header\<close>, \<open>authorization\<close> and the
  value \<open>Bearer \<close> followed by the token. The script does so when the name is an
  identifier name (lemma \<open>updateSwaggerAuth_identifier\<close>). It pastes the name bare as
  the key of the object literal, where lines 231 and 234 paste it between quotes: with
  the name \<open>1e3\<close> the logout names \<open>1e3\<close> and the entry is written under the key
  \<open>1000\<close>, so that nothing is stored under the configured name.
\<close>

theorem numeric_scheme_name_sets_other_key:
  "securitySchemeName numeric_scheme_options = ''1e3''
   \<and> authCalls (updateSwaggerAuth numeric_scheme_options (token_with_exp ''tokA'' 4600) initial) =
       [LogoutWithPersistOption [''1e3''],
        AuthorizeWithPersistOption
          [(''1000'',
            \<lparr> auth_name = ''1e3'',
              auth_schema =
                \<lparr> schema_type = ''apiKey'', schema_in = ''header'',
                  schema_name = ''authorization'' \<rparr>,
              auth_value = ''Bearer tokA'' \<rparr>)]]
   \<and> map_of (authorized
        (updateSwaggerAuth numeric_scheme_options (token_with_exp ''tokA'' 4600) initial)) ''1e3''
       = None"
  by (simp add: numeric_scheme_options_def updateSwaggerAuth_def scheme_key_1e3
        authorizeWithPersistOption_def logoutWithPersistOption_def bearer_authorization_def
        token_with_exp_def initial_def DEFAULT_OPTIONS_def)

end
